theory Spec2Isabelle
  imports Complex_Main "HOL-Library.Word"
begin

unbundle bit_operations_syntax

section \<open>Audio relay of \<open>examples/play_audio_stream.py\<close>\<close>

subsection \<open>Samples, exceptions, array slices\<close>

text \<open>
  Audio samples are numpy \<open>int16\<close> values. The exceptions are the Python exception
  classes that the modelled code can meet.
\<close>

type_synonym sample = "16 word"

datatype exn =
    ConnectionClosed | JSONDecodeError | AttributeError | TypeError | ValueError
  | BinasciiError | OSError | QueueFull

text \<open>
  \<open>a[:k]\<close> and \<open>a[k:]\<close> on a one-dimensional array: a negative bound counts from the
  end, and bounds beyond the array are clamped.
\<close>

definition slice_bound :: "int \<Rightarrow> nat \<Rightarrow> nat" where
  "slice_bound k n = nat (if k < 0 then k + int n else k)"

definition slice_upto :: "int \<Rightarrow> 'a list \<Rightarrow> 'a list" where
  "slice_upto k xs = take (slice_bound k (length xs)) xs"

definition slice_from :: "int \<Rightarrow> 'a list \<Rightarrow> 'a list" where
  "slice_from k xs = drop (slice_bound k (length xs)) xs"

text \<open>\<open>np.zeros(n, dtype=np.int16)\<close> raises \<open>ValueError\<close> for a negative \<open>n\<close>.\<close>

definition np_zeros :: "int \<Rightarrow> exn + sample list" where
  "np_zeros n = (if n < 0 then Inl ValueError else Inr (replicate (nat n) 0))"

text \<open>\<open>chunk[:k] = src\<close> where \<open>src\<close> has the length of the slice.\<close>

definition slice_assign :: "int \<Rightarrow> 'a list \<Rightarrow> 'a list \<Rightarrow> 'a list" where
  "slice_assign k src chunk = src @ slice_from k chunk"

subsection \<open>AudioBuffer\<close>

record AudioBuffer =
  blocksize :: int
  buffer :: "sample list"

definition AudioBuffer_init :: "int \<Rightarrow> AudioBuffer" where
  "AudioBuffer_init bs = \<lparr>blocksize = bs, buffer = []\<rparr>"

definition add_frame :: "AudioBuffer \<Rightarrow> sample list \<Rightarrow> AudioBuffer" where
  "add_frame b frame_data = b\<lparr>buffer := buffer b @ frame_data\<rparr>"

definition get_chunk :: "AudioBuffer \<Rightarrow> sample list option \<times> AudioBuffer" where
  "get_chunk b =
     (if int (length (buffer b)) \<ge> blocksize b
      then (Some (slice_upto (blocksize b) (buffer b)),
            b\<lparr>buffer := slice_from (blocksize b) (buffer b)\<rparr>)
      else (None, b))"

definition get_padded_chunk :: "AudioBuffer \<Rightarrow> exn + (sample list \<times> AudioBuffer)" where
  "get_padded_chunk b =
     (if length (buffer b) > 0
      then (case np_zeros (blocksize b) of
              Inl e \<Rightarrow> Inl e
            | Inr chunk \<Rightarrow>
                (let available = min (int (length (buffer b))) (blocksize b)
                 in Inr (slice_assign available (slice_upto available (buffer b)) chunk,
                         b\<lparr>buffer := slice_from available (buffer b)\<rparr>)))
      else (case np_zeros (blocksize b) of
              Inl e \<Rightarrow> Inl e
            | Inr chunk \<Rightarrow> Inr (chunk, b)))"

text \<open>
  \<open>get_chunks n b\<close> calls \<open>get_chunk\<close> \<open>n\<close> times in a row and records what each call
  returned, in call order.
\<close>

primrec get_chunks :: "nat \<Rightarrow> AudioBuffer \<Rightarrow> sample list option list \<times> AudioBuffer" where
  "get_chunks 0 b = ([], b)"
| "get_chunks (Suc n) b =
     (case get_chunks n b of
        (rs, b1) \<Rightarrow> (case get_chunk b1 of (r, b2) \<Rightarrow> (rs @ [r], b2)))"

subsection \<open>Module constants\<close>

definition SAMPLERATE :: nat where "SAMPLERATE = 48000"
definition BLOCKSIZE :: int where "BLOCKSIZE = 480"
definition VOICE_AGENT_INPUT_RATE :: nat where "VOICE_AGENT_INPUT_RATE = 16000"
definition VOICE_AGENT_OUTPUT_RATE :: nat where "VOICE_AGENT_OUTPUT_RATE = 24000"

subsection \<open>JSON values and received frames\<close>

text \<open>
  \<open>json\<close> is what \<open>json.loads\<close> returns: \<open>JObj\<close> carries the items of a Python dict
  (keys are distinct). A received frame is represented by what the parser makes of it:
  the text of a JSON value, or text that is not JSON, on which \<open>json.loads\<close> raises.
\<close>

datatype json =
    JNull | JBool bool | JNum int | JStr string | JArr "json list"
  | JObj "(string \<times> json) list"

datatype wire = Json_text json | Not_json string

definition json_loads :: "wire \<Rightarrow> exn + json" where
  "json_loads m = (case m of Json_text j \<Rightarrow> Inr j | Not_json t \<Rightarrow> Inl JSONDecodeError)"

definition json_dumps :: "json \<Rightarrow> wire" where
  "json_dumps j = Json_text j"

text \<open>
  \<open>data.get(key)\<close> and \<open>data.get(key, default)\<close>: only a dict has the method; on any
  other JSON value the attribute lookup raises \<open>AttributeError\<close>. \<open>None\<close> stands for
  Python's \<open>None\<close>.
\<close>

definition dict_get :: "json \<Rightarrow> string \<Rightarrow> exn + json option" where
  "dict_get data key = (case data of JObj kv \<Rightarrow> Inr (map_of kv key) | _ \<Rightarrow> Inl AttributeError)"

definition dict_get_default :: "json \<Rightarrow> string \<Rightarrow> json \<Rightarrow> exn + json" where
  "dict_get_default data key dflt =
     (case data of
        JObj kv \<Rightarrow> Inr (case map_of kv key of None \<Rightarrow> dflt | Some v \<Rightarrow> v)
      | _ \<Rightarrow> Inl AttributeError)"

subsection \<open>Logging\<close>

text \<open>
  \<open>logging.basicConfig(level=logging.INFO)\<close>: records below \<open>INFO\<close> are not emitted.
  A record is kept as its level and the constant ASCII part of its message.
\<close>

datatype level = DEBUG | INFO | WARNING | ERROR

type_synonym log_record = "level \<times> string"

subsection \<open>The websocket channel\<close>

text \<open>
  The peer and the network are the environment. \<open>incoming\<close> lists what the successive
  receive attempts yield: a frame, or an exception raised by the receive. When the list
  is exhausted the peer has closed the connection normally: \<open>recv\<close> then raises
  \<open>ConnectionClosed\<close>, and iteration over the connection stops. \<open>send_faults\<close> lists
  what the successive send attempts meet (\<open>None\<close>: delivered; an exhausted list:
  delivered). \<open>sent\<close> collects the frames delivered, and \<open>closed\<close> records that the
  client called \<open>close()\<close>.
\<close>

datatype event = Message wire | Failure exn

record websocket =
  incoming :: "event list"
  send_faults :: "exn option list"
  sent :: "wire list"
  closed :: bool

definition recv :: "websocket \<Rightarrow> (exn + wire) \<times> websocket" where
  "recv ws =
     (case incoming ws of
        [] \<Rightarrow> (Inl ConnectionClosed, ws)
      | Message m # rest \<Rightarrow> (Inr m, ws\<lparr>incoming := rest\<rparr>)
      | Failure e # rest \<Rightarrow> (Inl e, ws\<lparr>incoming := rest\<rparr>))"

definition ws_send :: "websocket \<Rightarrow> wire \<Rightarrow> exn option \<times> websocket" where
  "ws_send ws m =
     (case send_faults ws of
        [] \<Rightarrow> (None, ws\<lparr>sent := sent ws @ [m]\<rparr>)
      | None # rest \<Rightarrow> (None, ws\<lparr>sent := sent ws @ [m], send_faults := rest\<rparr>)
      | Some e # rest \<Rightarrow> (Some e, ws\<lparr>send_faults := rest\<rparr>))"

definition ws_close :: "websocket \<Rightarrow> websocket" where
  "ws_close ws = ws\<lparr>closed := True\<rparr>"

subsection \<open>asyncio.Queue\<close>

text \<open>
  An awaited call completes with a value, raises, or stays pending: the coroutine is
  suspended and resumes only when another task acts. \<open>Queue.put\<close> on a full queue waits
  for a free slot; it is \<open>put_nowait\<close>, which the program never calls, that raises
  \<open>QueueFull\<close>. A queue with \<open>maxsize <= 0\<close> is never full.
\<close>

datatype 'a awaited = Completed 'a | Raises exn | Pending

record 'a queue =
  maxsize :: int
  items :: "'a list"

definition Queue :: "int \<Rightarrow> 'a queue" where
  "Queue n = \<lparr>maxsize = n, items = []\<rparr>"

definition full :: "'a queue \<Rightarrow> bool" where
  "full q = (if maxsize q \<le> 0 then False else int (length (items q)) \<ge> maxsize q)"

definition queue_put :: "'a queue \<Rightarrow> 'a \<Rightarrow> 'a queue awaited" where
  "queue_put q x = (if full q then Pending else Completed (q\<lparr>items := items q @ [x]\<rparr>))"

subsection \<open>numpy, scipy and base64\<close>

text \<open>\<open>astype(np.float32)\<close> of an \<open>int16\<close> is exact.\<close>

definition to_float32 :: "sample \<Rightarrow> real" where
  "to_float32 w = real_of_int (sint w)"

definition trunc_zero :: "real \<Rightarrow> int" where
  "trunc_zero v = (if 0 \<le> v then \<lfloor>v\<rfloor> else - \<lfloor>- v\<rfloor>)"

text \<open>\<open>tobytes\<close> and \<open>np.frombuffer(_, dtype=np.int16)\<close>: two bytes a sample, low byte first.\<close>

definition tobytes :: "sample list \<Rightarrow> 8 word list" where
  "tobytes ws = concat (map (\<lambda>w. [ucast w, ucast (drop_bit 8 w)]) ws)"

fun int16_le :: "8 word list \<Rightarrow> sample list" where
  "int16_le (lo # hi # rest) = (push_bit 8 (ucast hi) OR ucast lo) # int16_le rest"
| "int16_le _ = []"

definition frombuffer :: "8 word list \<Rightarrow> exn + sample list" where
  "frombuffer bs = (if odd (length bs) then Inl ValueError else Inr (int16_le bs))"

text \<open>
  The library functions whose results the program only passes on are parameters:
  \<open>scipy.signal.resample(x, num)\<close>, \<open>base64.b64decode\<close> (applied to whatever JSON value
  the message carries) and \<open>base64.b64encode(...).decode('utf-8')\<close>. The last field is
  what \<open>astype(np.int16)\<close> stores for a float whose integer part does not fit 32 bits:
  the C conversion is undefined there and the stored sample is the platform's.
\<close>

record library =
  resample :: "real list \<Rightarrow> nat \<Rightarrow> exn + real list"
  b64decode :: "json \<Rightarrow> exn + 8 word list"
  b64encode :: "8 word list \<Rightarrow> string"
  cast_overflow :: "real \<Rightarrow> sample"

text \<open>
  \<open>astype(np.int16)\<close> of a float is the C conversion, with no clipping step: the
  fraction is discarded (truncation towards zero) and, when the integer part fits a
  signed 32-bit integer, its low 16 bits are stored. Beyond that range the result is
  the platform's.
\<close>

definition fits_int32 :: "int \<Rightarrow> bool" where
  "fits_int32 k = (- 2147483648 \<le> k \<and> k \<le> 2147483647)"

definition astype_int16 :: "library \<Rightarrow> real \<Rightarrow> sample" where
  "astype_int16 L v =
     (if fits_int32 (trunc_zero v) then word_of_int (trunc_zero v) else cast_overflow L v)"

text \<open>
  \<open>int(n * r_out / r_in)\<close> on non-negative Python ints: the true division is correctly
  rounded and \<open>int\<close> discards the fraction, which for array lengths is the integer
  quotient.
\<close>

definition int_ratio :: "nat \<Rightarrow> nat \<Rightarrow> nat \<Rightarrow> nat" where
  "int_ratio n r_out r_in = (n * r_out) div r_in"

text \<open>The resampling expressions of \<open>send_audio\<close> and \<open>listen_for_responses\<close>.\<close>

definition resample_outbound :: "library \<Rightarrow> sample list \<Rightarrow> exn + sample list" where
  "resample_outbound L audio_data =
     (case resample L (map to_float32 audio_data)
             (int_ratio (length audio_data) VOICE_AGENT_INPUT_RATE SAMPLERATE) of
        Inl e \<Rightarrow> Inl e
      | Inr ys \<Rightarrow> Inr (map (astype_int16 L) ys))"

definition resample_inbound :: "library \<Rightarrow> sample list \<Rightarrow> exn + sample list" where
  "resample_inbound L audio_data =
     (case resample L (map to_float32 audio_data)
             (int_ratio (length audio_data) SAMPLERATE VOICE_AGENT_OUTPUT_RATE) of
        Inl e \<Rightarrow> Inl e
      | Inr ys \<Rightarrow> Inr (map (astype_int16 L) ys))"

subsection \<open>Program state\<close>

text \<open>
  The fields of the one \<open>VoiceAgentClient\<close> instance (\<open>websocket\<close>, \<open>output_queue\<close>,
  \<open>connected\<close>), the local monitoring queue of \<open>main\<close>, the records emitted by the
  module's logger and the values printed.
\<close>

record state =
  websocket :: "websocket option"
  output_queue :: "sample list queue"
  connected :: bool
  local_audio_queue :: "sample list queue"
  log :: "log_record list"
  stdout :: "json list"

definition logs :: "level \<Rightarrow> string \<Rightarrow> state \<Rightarrow> state" where
  "logs lvl msg s = (if lvl = DEBUG then s else s\<lparr>log := log s @ [(lvl, msg)]\<rparr>)"

definition VoiceAgentClient_init :: "sample list queue \<Rightarrow> sample list queue \<Rightarrow> state" where
  "VoiceAgentClient_init out_q local_q =
     \<lparr>websocket = None, output_queue = out_q, connected = False,
      local_audio_queue = local_q, log = [], stdout = []\<rparr>"

text \<open>
  How a stretch of code ends: it runs to its end, it raises, or it is suspended in an
  await that no step of its own completes. Each case carries the state reached.
\<close>

datatype 'a flow = Done 'a | Raised exn 'a | Waiting 'a

subsection \<open>VoiceAgentClient.connect and disconnect\<close>

text \<open>
  \<open>dial\<close> is the outcome of \<open>websockets.connect(self.url)\<close>: an exception or the opened
  connection.
\<close>

definition connect :: "exn + websocket \<Rightarrow> state \<Rightarrow> bool \<times> state" where
  "connect dial s =
     (let s1 = logs INFO ''Connecting to voice agent'' s in
      case dial of
        Inl e \<Rightarrow> (False, logs ERROR ''Failed to connect to voice agent'' s1)
      | Inr ws \<Rightarrow>
          (let s2 = logs INFO ''Waiting for ready message...'' (s1\<lparr>websocket := Some ws\<rparr>) in
           case recv ws of
             (Inl e, ws') \<Rightarrow>
               (False, logs ERROR ''Failed to connect to voice agent'' (s2\<lparr>websocket := Some ws'\<rparr>))
           | (Inr message, ws') \<Rightarrow>
               (let s3 = s2\<lparr>websocket := Some ws'\<rparr> in
                case json_loads message of
                  Inl e \<Rightarrow> (False, logs ERROR ''Failed to connect to voice agent'' s3)
                | Inr data \<Rightarrow>
                    (case dict_get data ''type'' of
                       Inl e \<Rightarrow> (False, logs ERROR ''Failed to connect to voice agent'' s3)
                     | Inr t \<Rightarrow>
                         if t = Some (JStr ''ready'')
                         then (True, (logs INFO ''Voice agent connected and ready!'' s3)
                                        \<lparr>connected := True\<rparr>)
                         else (False, logs ERROR ''Expected ready message, got'' s3)))))"

definition disconnect :: "state \<Rightarrow> state" where
  "disconnect s =
     (let s1 = s\<lparr>connected := False\<rparr> in
      case websocket s1 of
        None \<Rightarrow> s1
      | Some ws \<Rightarrow> s1\<lparr>websocket := Some (ws_close ws)\<rparr>)"

subsection \<open>VoiceAgentClient.send_audio\<close>

definition send_audio :: "library \<Rightarrow> sample list \<Rightarrow> state \<Rightarrow> state" where
  "send_audio L audio_data s =
     (if \<not> connected s then s
      else case websocket s of
        None \<Rightarrow> s
      | Some ws \<Rightarrow>
          (case resample_outbound L audio_data of
             Inl e \<Rightarrow> logs ERROR ''Error sending audio'' s
           | Inr resampled \<Rightarrow>
               (let audio_bytes = tobytes resampled;
                    audio_b64 = b64encode L audio_bytes;
                    message = JObj [(''type'', JStr ''audio''), (''data'', JStr audio_b64)]
                in case ws_send ws (json_dumps message) of
                     (Some e, ws') \<Rightarrow>
                       logs ERROR ''Error sending audio'' (s\<lparr>websocket := Some ws'\<rparr>)
                   | (None, ws') \<Rightarrow>
                       logs DEBUG ''Sent samples to voice agent'' (s\<lparr>websocket := Some ws'\<rparr>))))"

subsection \<open>VoiceAgentClient.listen_for_responses\<close>

text \<open>Decoding an audio message down to the resampled frame.\<close>

definition decode_audio :: "library \<Rightarrow> json \<Rightarrow> exn + sample list" where
  "decode_audio L data =
     (case dict_get_default data ''data'' (JStr []) of
        Inl e \<Rightarrow> Inl e
      | Inr audio_b64 \<Rightarrow>
          (case b64decode L audio_b64 of
             Inl e \<Rightarrow> Inl e
           | Inr audio_bytes \<Rightarrow>
               (case frombuffer audio_bytes of
                  Inl e \<Rightarrow> Inl e
                | Inr audio_data \<Rightarrow> resample_inbound L audio_data)))"

text \<open>The \<open>try: await self.output_queue.put(resampled) ... except asyncio.QueueFull\<close> block.\<close>

definition put_response :: "sample list \<Rightarrow> state \<Rightarrow> state flow" where
  "put_response resampled s =
     (case queue_put (output_queue s) resampled of
        Completed q \<Rightarrow>
          Done (logs DEBUG ''Received samples from voice agent'' (s\<lparr>output_queue := q\<rparr>))
      | Raises e \<Rightarrow>
          if e = QueueFull then Done (logs WARNING ''Output queue full, dropping audio'' s)
          else Raised e s
      | Pending \<Rightarrow> Waiting s)"

text \<open>
  The body of the receive loop, for one message. The second \<open>data.get("type")\<close> returns
  what the first one did, so \<open>t\<close> is used for both tests.
\<close>

definition on_message :: "library \<Rightarrow> wire \<Rightarrow> state \<Rightarrow> state flow" where
  "on_message L message s =
     (case json_loads message of
        Inl e \<Rightarrow> Raised e s
      | Inr data \<Rightarrow>
          (case dict_get data ''type'' of
             Inl e \<Rightarrow> Raised e s
           | Inr t \<Rightarrow>
               (case (if t = Some (JStr ''audio'')
                      then (case decode_audio L data of
                              Inl e \<Rightarrow> Raised e s
                            | Inr resampled \<Rightarrow> put_response resampled s)
                      else Done s) of
                  Done s1 \<Rightarrow>
                    if t = Some (JStr ''text'')
                    then (case dict_get_default data ''data'' (JStr []) of
                            Inl e \<Rightarrow> Raised e s1
                          | Inr v \<Rightarrow> Done (s1\<lparr>stdout := stdout s1 @ [v]\<rparr>))
                    else Done s1
                | Raised e s1 \<Rightarrow> Raised e s1
                | Waiting s1 \<Rightarrow> Waiting s1)))"

text \<open>
  \<open>async for message in self.websocket\<close>: each round takes the next event off the
  connection; an exhausted connection ends the loop.
\<close>

definition set_incoming :: "event list \<Rightarrow> state \<Rightarrow> state" where
  "set_incoming rest s =
     s\<lparr>websocket := map_option (\<lambda>ws. ws\<lparr>incoming := rest\<rparr>) (websocket s)\<rparr>"

fun receive_loop :: "library \<Rightarrow> event list \<Rightarrow> state \<Rightarrow> state flow" where
  "receive_loop L [] s = Done s"
| "receive_loop L (Failure e # rest) s = Raised e (set_incoming rest s)"
| "receive_loop L (Message m # rest) s =
     (case on_message L m (set_incoming rest s) of
        Done s1 \<Rightarrow> receive_loop L rest s1
      | Raised e s1 \<Rightarrow> Raised e s1
      | Waiting s1 \<Rightarrow> Waiting s1)"

text \<open>
  The two handlers around the loop. Iterating over \<open>None\<close> raises \<open>TypeError\<close>. The
  result is \<open>Done\<close> when the coroutine has returned.
\<close>

definition listen_for_responses :: "library \<Rightarrow> state \<Rightarrow> state flow" where
  "listen_for_responses L s =
     (case (case websocket s of
              None \<Rightarrow> Raised TypeError s
            | Some ws \<Rightarrow> receive_loop L (incoming ws) s) of
        Done s1 \<Rightarrow> Done s1
      | Raised e s1 \<Rightarrow>
          if e = ConnectionClosed
          then Done ((logs INFO ''Voice agent connection closed'' s1)\<lparr>connected := False\<rparr>)
          else Done ((logs ERROR ''Error listening for responses'' s1)\<lparr>connected := False\<rparr>)
      | Waiting s1 \<Rightarrow> Waiting s1)"

subsection \<open>The frame loop of rtc_session\<close>

text \<open>
  The body of \<open>async for audio_frame_event in stream\<close> for one frame of samples. The
  frame counter only feeds a debug record and is left out.
\<close>

definition on_frame :: "library \<Rightarrow> sample list \<Rightarrow> state \<Rightarrow> state flow" where
  "on_frame L audio_data s =
     (let s1 = send_audio L audio_data s in
      case queue_put (local_audio_queue s1) audio_data of
        Completed q \<Rightarrow> Done (s1\<lparr>local_audio_queue := q\<rparr>)
      | Raises e \<Rightarrow>
          if e = QueueFull then Done (logs WARNING ''Audio queue full, dropping frame'' s1)
          else Raised e s1
      | Pending \<Rightarrow> Waiting s1)"

text \<open>
  Base64 of a byte string, as \<open>base64.b64encode\<close> computes it: three bytes make four
  characters of the alphabet, and a last group of one or two bytes is padded with \<open>=\<close>.
\<close>

definition b64_alphabet :: string where
  "b64_alphabet = ''ABCDEFGHIJKLMNOPQRSTUVWXYZabcdefghijklmnopqrstuvwxyz0123456789+/''"

definition b64_char :: "nat \<Rightarrow> char" where
  "b64_char n = b64_alphabet ! (n mod 64)"

fun b64_groups :: "nat list \<Rightarrow> string" where
  "b64_groups (a # b # c # rest) =
     [b64_char (a div 4), b64_char ((a mod 4) * 16 + b div 16),
      b64_char ((b mod 16) * 4 + c div 64), b64_char (c mod 64)] @ b64_groups rest"
| "b64_groups [a, b] =
     [b64_char (a div 4), b64_char ((a mod 4) * 16 + b div 16),
      b64_char ((b mod 16) * 4), CHR ''='']"
| "b64_groups [a] = [b64_char (a div 4), b64_char ((a mod 4) * 16), CHR ''='', CHR ''='']"
| "b64_groups [] = []"

definition base64_encode :: "8 word list \<Rightarrow> string" where
  "base64_encode bs = b64_groups (map unat bs)"

text \<open>
  A concrete instance of the library parameters for evaluating the program on concrete
  inputs. Its resampler raises \<open>ValueError\<close> on an empty input and on a requested count
  of zero, as \<open>scipy.signal.resample\<close> does, and otherwise returns the requested number
  of samples, all zero in place of the interpolated values. Its decoder knows the
  payload \<open>AQACAA==\<close>, the base64 of the four bytes \<open>01 00 02 00\<close> (the samples 1 and 2),
  and the empty payload; it raises \<open>TypeError\<close> on a value that is not a string and
  takes any other string as undecodable. A float beyond 32 bits is stored as 0.
\<close>

definition zero_library :: library where
  "zero_library =
     \<lparr>resample = (\<lambda>x n. if x = [] \<or> n = 0 then Inl ValueError else Inr (replicate n 0)),
      b64decode = (\<lambda>j. case j of
                          JStr t \<Rightarrow> if t = ''AQACAA=='' then Inr [1, 0, 2, 0]
                                    else if t = [] then Inr []
                                    else Inl BinasciiError
                        | _ \<Rightarrow> Inl TypeError),
      b64encode = base64_encode,
      cast_overflow = (\<lambda>v. 0)\<rparr>"

subsection \<open>The length the specification states for the resampler\<close>

text \<open>
  The specification's \<open>round(len(input) * r_out / r_in)\<close>. At the two rate pairs in use
  the quotient never has fraction one half, so the rounding rule for ties plays no role.
\<close>

definition spec_resampled_length :: "nat \<Rightarrow> nat \<Rightarrow> nat \<Rightarrow> nat" where
  "spec_resampled_length n r_in r_out = nat (round (real n * real r_out / real r_in))"

subsection \<open>AudioBuffer: chunks come out whole and in order\<close>

lemma buffer_add_frames:
  "buffer (foldl add_frame b frames) = buffer b @ concat frames"
  by (induction frames arbitrary: b) (simp_all add: add_frame_def)

lemma blocksize_add_frames:
  "blocksize (foldl add_frame b frames) = blocksize b"
  by (induction frames arbitrary: b) (simp_all add: add_frame_def)

lemma get_chunk_enough:
  assumes "0 < blocksize b" and "nat (blocksize b) \<le> length (buffer b)"
  shows "get_chunk b = (Some (take (nat (blocksize b)) (buffer b)),
                        b\<lparr>buffer := drop (nat (blocksize b)) (buffer b)\<rparr>)"
  using assms by (simp add: get_chunk_def slice_upto_def slice_from_def slice_bound_def)

lemma get_chunk_short:
  assumes "length (buffer b) < nat (blocksize b)"
  shows "get_chunk b = (None, b)"
  using assms by (simp add: get_chunk_def)

lemma get_chunks_prefix:
  assumes "0 < blocksize b" and "n * nat (blocksize b) \<le> length (buffer b)"
  shows "get_chunks n b =
           (map (\<lambda>i. Some (take (nat (blocksize b)) (drop (i * nat (blocksize b)) (buffer b)))) [0..<n],
            b\<lparr>buffer := drop (n * nat (blocksize b)) (buffer b)\<rparr>)"
  using assms
proof (induction n)
  case 0
  then show ?case by simp
next
  case (Suc n)
  let ?k = "nat (blocksize b)"
  let ?b1 = "b\<lparr>buffer := drop (n * ?k) (buffer b)\<rparr>"
  from Suc.prems have le: "n * ?k \<le> length (buffer b)" by simp
  have enough: "nat (blocksize ?b1) \<le> length (buffer ?b1)"
    using Suc.prems by simp
  have pos: "0 < blocksize ?b1" using Suc.prems by simp
  have step: "get_chunk ?b1 =
      (Some (take ?k (drop (n * ?k) (buffer b))), b\<lparr>buffer := drop (Suc n * ?k) (buffer b)\<rparr>)"
    using get_chunk_enough [OF pos enough] by (simp add: add.commute)
  show ?case
    using Suc.IH [OF Suc.prems(1) le] step by simp
qed

text \<open>
  C2. After any sequence of \<open>add_frame\<close> calls on a fresh buffer with a positive block
  size, the first \<open>L div blocksize\<close> calls of \<open>get_chunk\<close> (where \<open>L\<close> is the number of
  samples added) each return a chunk of exactly \<open>blocksize\<close> samples, the \<open>i\<close>-th chunk
  being samples \<open>i * blocksize\<close> up to \<open>(i + 1) * blocksize\<close> of the concatenated input;
  the next call returns \<open>None\<close> and changes nothing, and fewer than \<open>blocksize\<close> samples
  (the tail of the input) stay buffered.
\<close>

theorem get_chunk_fifo:
  fixes bs :: int and frames :: "sample list list"
  defines "xs \<equiv> concat frames"
  defines "n \<equiv> length (concat frames) div nat bs"
  defines "b \<equiv> foldl add_frame (AudioBuffer_init bs) frames"
  assumes "0 < bs"
  shows "fst (get_chunks n b) = map (\<lambda>i. Some (take (nat bs) (drop (i * nat bs) xs))) [0..<n]
       \<and> (\<forall>i<n. length (take (nat bs) (drop (i * nat bs) xs)) = nat bs)
       \<and> concat (map (\<lambda>i. take (nat bs) (drop (i * nat bs) xs)) [0..<n]) = take (n * nat bs) xs
       \<and> buffer (snd (get_chunks n b)) = drop (n * nat bs) xs
       \<and> length (buffer (snd (get_chunks n b))) \<le> nat bs - 1
       \<and> get_chunk (snd (get_chunks n b)) = (None, snd (get_chunks n b))"
proof -
  let ?k = "nat bs"
  have kpos: "0 < ?k" using assms by simp
  have bb: "buffer b = xs" "blocksize b = bs"
    by (simp_all add: b_def xs_def buffer_add_frames blocksize_add_frames AudioBuffer_init_def)
  have fits: "n * ?k \<le> length xs"
    by (simp add: n_def xs_def)
  have run: "get_chunks n b =
      (map (\<lambda>i. Some (take ?k (drop (i * ?k) xs))) [0..<n], b\<lparr>buffer := drop (n * ?k) xs\<rparr>)"
    using get_chunks_prefix [of b n] assms(4) fits bb by simp
  have rest: "length xs - n * ?k < ?k"
  proof -
    have "length xs mod ?k < ?k" using kpos by simp
    moreover have "length xs - n * ?k = length xs mod ?k"
      by (simp add: n_def xs_def minus_div_mult_eq_mod)
    ultimately show ?thesis by simp
  qed
  have each: "\<forall>i<n. length (take ?k (drop (i * ?k) xs)) = ?k"
  proof (intro allI impI)
    fix i assume "i < n"
    then have "Suc i * ?k \<le> n * ?k" by (simp add: Suc_leI mult_le_mono1 del: mult_Suc)
    with fits have "i * ?k + ?k \<le> length xs" by simp
    then show "length (take ?k (drop (i * ?k) xs)) = ?k" by simp
  qed
  have cat: "concat (map (\<lambda>i. take ?k (drop (i * ?k) xs)) [0..<m]) = take (m * ?k) xs" for m
  proof (induction m)
    case 0
    then show ?case by simp
  next
    case (Suc m)
    have "take (m * ?k) xs @ take ?k (drop (m * ?k) xs) = take (m * ?k + ?k) xs"
      by (simp add: take_add)
    with Suc show ?case by (simp add: add.commute)
  qed
  have none: "get_chunk (b\<lparr>buffer := drop (n * ?k) xs\<rparr>) = (None, b\<lparr>buffer := drop (n * ?k) xs\<rparr>)"
    using rest bb by (intro get_chunk_short) simp
  show ?thesis
    using run each cat [of n] rest none by simp
qed

theorem get_chunk_fifo_witness:
  "(0::int) < 2
   \<and> fst (get_chunks 2 (foldl add_frame (AudioBuffer_init 2) [[1, 2, 3], [4, 5]]))
       = [Some [1, 2], Some [3, 4]]
   \<and> buffer (snd (get_chunks 2 (foldl add_frame (AudioBuffer_init 2) [[1, 2, 3], [4, 5]]))) = [5]"
proof -
  have pos: "(0::int) < 2" by simp
  have n: "length (concat [[1, 2, 3], [4, 5::sample]]) div nat 2 = 2" by simp
  have idx: "[0..<2] = [0, 1]" by (simp add: upt_rec)
  from get_chunk_fifo [OF pos, of "[[1, 2, 3], [4, 5]]"]
  show ?thesis unfolding n idx by simp
qed

subsection \<open>AudioBuffer: the padded chunk\<close>

lemma get_padded_chunk_value:
  assumes "0 \<le> blocksize b"
  shows "get_padded_chunk b =
           Inr (take (nat (blocksize b)) (buffer b)
                  @ replicate (nat (blocksize b) - length (buffer b)) 0,
                b\<lparr>buffer := drop (nat (blocksize b)) (buffer b)\<rparr>)"
proof (cases "buffer b = []")
  case True
  then show ?thesis
    using assms by (simp add: get_padded_chunk_def np_zeros_def)
next
  case False
  let ?k = "nat (blocksize b)" and ?n = "length (buffer b)"
  have av: "nat (min (int ?n) (blocksize b)) = min ?n ?k"
    using assms by simp
  have nn: "\<not> min (int ?n) (blocksize b) < 0"
    using assms by simp
  have pad: "drop (min ?n ?k) (replicate ?k (0::sample)) = replicate (?k - ?n) 0"
    by (simp add: min_def)
  have tk: "take (min ?n ?k) (buffer b) = take ?k (buffer b)"
    by (simp add: min_def)
  have dr: "drop (min ?n ?k) (buffer b) = drop ?k (buffer b)"
    by (simp add: min_def)
  show ?thesis
    using False assms nn
    by (simp add: get_padded_chunk_def np_zeros_def slice_assign_def slice_upto_def
        slice_from_def slice_bound_def av pad tk dr Let_def)
qed

text \<open>
  C6, as the code has it. For a buffer with a non-negative block size,
  \<open>get_padded_chunk\<close> returns a frame of exactly \<open>blocksize\<close> samples: the first
  \<open>min(len, blocksize)\<close> buffered samples followed by zeros. It removes those samples
  and no more, so the buffer is empty afterwards exactly when it held at most
  \<open>blocksize\<close> samples; a longer buffer keeps what lies beyond the first block.
\<close>

theorem get_padded_chunk_drains_block:
  assumes "0 \<le> blocksize b"
  shows "\<exists>chunk b'. get_padded_chunk b = Inr (chunk, b')
           \<and> length chunk = nat (blocksize b)
           \<and> chunk = take (nat (blocksize b)) (buffer b)
                        @ replicate (nat (blocksize b) - length (buffer b)) 0
           \<and> buffer b' = drop (nat (blocksize b)) (buffer b)
           \<and> blocksize b' = blocksize b
           \<and> (buffer b' = [] \<longleftrightarrow> int (length (buffer b)) \<le> blocksize b)"
  using assms by (auto simp add: get_padded_chunk_value)

theorem get_padded_chunk_drains_block_witness:
  "(0::int) \<le> blocksize \<lparr>blocksize = 4, buffer = [7, 8]\<rparr>
   \<and> get_padded_chunk \<lparr>blocksize = 4, buffer = [7, 8]\<rparr>
       = Inr ([7, 8, 0, 0], \<lparr>blocksize = 4, buffer = []\<rparr>)"
  using get_padded_chunk_drains_block [of "\<lparr>blocksize = 4, buffer = [7, 8]\<rparr>"]
  by (auto simp add: numeral_eq_Suc)

text \<open>
  C6 as stated fails: with block size 2 and three buffered samples the call returns the
  first two and the third stays in the buffer.
\<close>

theorem get_padded_chunk_leaves_excess:
  "get_padded_chunk \<lparr>blocksize = 2, buffer = [1, 2, 3]\<rparr>
     = Inr ([1, 2], \<lparr>blocksize = 2, buffer = [3]\<rparr>)"
  by (simp add: get_padded_chunk_def np_zeros_def slice_assign_def slice_upto_def
      slice_from_def slice_bound_def Let_def)

text \<open>
  C7. On a buffer holding \<open>k < blocksize\<close> samples, \<open>get_padded_chunk\<close> returns the \<open>k\<close>
  buffered samples in their order followed by \<open>blocksize - k\<close> zeros and leaves the
  buffer empty; on an empty buffer the frame is \<open>blocksize\<close> zeros.
\<close>

theorem get_padded_chunk_short:
  assumes "int (length (buffer b)) < blocksize b"
  shows "get_padded_chunk b =
           Inr (buffer b @ replicate (nat (blocksize b) - length (buffer b)) 0,
                b\<lparr>buffer := []\<rparr>)
       \<and> (buffer b = [] \<longrightarrow>
            get_padded_chunk b = Inr (replicate (nat (blocksize b)) 0, b))"
proof -
  have nn: "0 \<le> blocksize b" using assms by linarith
  have le: "length (buffer b) \<le> nat (blocksize b)" using assms by linarith
  show ?thesis
    using get_padded_chunk_value [OF nn] le by auto
qed

theorem get_padded_chunk_short_witness:
  "int (length (buffer \<lparr>blocksize = 3, buffer = [9]\<rparr>)) < blocksize \<lparr>blocksize = 3, buffer = [9]\<rparr>
   \<and> get_padded_chunk \<lparr>blocksize = 3, buffer = [9]\<rparr>
       = Inr ([9, 0, 0], \<lparr>blocksize = 3, buffer = []\<rparr>)
   \<and> get_padded_chunk \<lparr>blocksize = 3, buffer = []\<rparr>
       = Inr ([0, 0, 0], \<lparr>blocksize = 3, buffer = []\<rparr>)"
  using get_padded_chunk_short [of "\<lparr>blocksize = 3, buffer = [9]\<rparr>"]
        get_padded_chunk_short [of "\<lparr>blocksize = 3, buffer = []\<rparr>"]
  by (simp add: numeral_eq_Suc)

subsection \<open>connect: the handshake\<close>

lemma connected_logs [simp]: "connected (logs lvl msg s) = connected s"
  by (simp add: logs_def)

lemma websocket_logs [simp]: "websocket (logs lvl msg s) = websocket s"
  by (simp add: logs_def)

lemma connect_dial_failed:
  "connect (Inl e) s =
     (False, logs ERROR ''Failed to connect to voice agent'' (logs INFO ''Connecting to voice agent'' s))"
  by (simp add: connect_def)

lemma connect_no_message:
  assumes "incoming ws = []"
  shows "fst (connect (Inr ws) s) = False"
    and "connected (snd (connect (Inr ws) s)) = connected s"
    and "websocket (snd (connect (Inr ws) s)) = Some ws"
  using assms by (simp_all add: connect_def recv_def)

lemma connect_receive_failed:
  assumes "incoming ws = Failure e # rest"
  shows "fst (connect (Inr ws) s) = False"
    and "connected (snd (connect (Inr ws) s)) = connected s"
    and "websocket (snd (connect (Inr ws) s)) = Some (ws\<lparr>incoming := rest\<rparr>)"
  using assms by (simp_all add: connect_def recv_def)

lemma connect_first_message:
  assumes "incoming ws = Message m # rest"
  shows "fst (connect (Inr ws) s) \<longleftrightarrow>
           (\<exists>kv. m = Json_text (JObj kv) \<and> map_of kv ''type'' = Some (JStr ''ready''))"
    and "connected (snd (connect (Inr ws) s)) = (fst (connect (Inr ws) s) \<or> connected s)"
    and "websocket (snd (connect (Inr ws) s)) = Some (ws\<lparr>incoming := rest\<rparr>)"
  using assms
  by (auto simp add: connect_def recv_def json_loads_def dict_get_def Let_def
      split: wire.splits json.splits if_splits)

text \<open>
  C4, as the code has it. \<open>connect\<close> returns \<open>True\<close> exactly when the connection was
  opened and the first receive yields a message that parses to a JSON object whose
  \<open>type\<close> member is the string \<open>ready\<close>; other members of the object are not looked
  at. On success \<open>connected\<close> is set. On every failure (the connection cannot be
  opened, the first receive raises or finds the connection closed, the message is not
  JSON, is not an object, or has another \<open>type\<close>) it returns \<open>False\<close> and \<open>connected\<close>
  keeps the value it had, \<open>False\<close> on a client that was not connected.
\<close>

theorem connect_ready_iff:
  "(fst (connect dial s) \<longleftrightarrow>
      (\<exists>ws kv rest. dial = Inr ws
         \<and> incoming ws = Message (Json_text (JObj kv)) # rest
         \<and> map_of kv ''type'' = Some (JStr ''ready'')))
   \<and> (fst (connect dial s) \<longrightarrow> connected (snd (connect dial s)))
   \<and> (\<not> fst (connect dial s) \<longrightarrow> connected (snd (connect dial s)) = connected s)"
proof (cases dial)
  case (Inl e)
  then show ?thesis by (simp add: connect_dial_failed)
next
  case (Inr ws)
  show ?thesis
  proof (cases "incoming ws")
    case Nil
    then show ?thesis using Inr connect_no_message [OF Nil, of s] by simp
  next
    case (Cons ev rest)
    show ?thesis
    proof (cases ev)
      case (Message m)
      with Cons have inc: "incoming ws = Message m # rest" by simp
      show ?thesis
        using Inr inc connect_first_message(1,2) [OF inc, of s] by auto
    next
      case (Failure e)
      with Cons have inc: "incoming ws = Failure e # rest" by simp
      show ?thesis
        using Inr inc connect_receive_failed(1,2) [OF inc, of s] by simp
    qed
  qed
qed


theorem connect_ready_iff_witness:
  "fst (connect (Inr \<lparr>incoming = [Message (Json_text (JObj [(''type'', JStr ''ready'')]))],
                      send_faults = [], sent = [], closed = False\<rparr>)
          (VoiceAgentClient_init (Queue 50) (Queue 50)))
   \<and> connected (snd (connect (Inr \<lparr>incoming = [Message (Json_text (JObj [(''type'', JStr ''ready'')]))],
                      send_faults = [], sent = [], closed = False\<rparr>)
          (VoiceAgentClient_init (Queue 50) (Queue 50))))
   \<and> \<not> fst (connect (Inr \<lparr>incoming = [Message (Json_text (JObj [(''type'', JStr ''audio'')]))],
                      send_faults = [], sent = [], closed = False\<rparr>)
          (VoiceAgentClient_init (Queue 50) (Queue 50)))
   \<and> \<not> connected (snd (connect (Inr \<lparr>incoming = [Message (Json_text (JObj [(''type'', JStr ''audio'')]))],
                      send_faults = [], sent = [], closed = False\<rparr>)
          (VoiceAgentClient_init (Queue 50) (Queue 50))))"
  using connect_ready_iff [of "Inr \<lparr>incoming = [Message (Json_text (JObj [(''type'', JStr ''ready'')]))],
                      send_faults = [], sent = [], closed = False\<rparr>"
          "VoiceAgentClient_init (Queue 50) (Queue 50)"]
        connect_ready_iff [of "Inr \<lparr>incoming = [Message (Json_text (JObj [(''type'', JStr ''audio'')]))],
                      send_faults = [], sent = [], closed = False\<rparr>"
          "VoiceAgentClient_init (Queue 50) (Queue 50)"]
  by (simp add: VoiceAgentClient_init_def)

text \<open>
  C4 as stated fails: a first message that is not exactly \<open>{"type":"ready"}\<close>, because
  it carries a further member, is accepted.
\<close>

theorem connect_accepts_extra_members:
  "fst (connect (Inr \<lparr>incoming = [Message (Json_text
                        (JObj [(''type'', JStr ''ready''), (''session'', JStr ''abc'')]))],
                      send_faults = [], sent = [], closed = False\<rparr>)
          (VoiceAgentClient_init (Queue 50) (Queue 50)))
   \<and> JObj [(''type'', JStr ''ready''), (''session'', JStr ''abc'')] \<noteq> JObj [(''type'', JStr ''ready'')]"
  by (simp add: connect_def recv_def json_loads_def dict_get_def Let_def)

text \<open>
  C10. When the connection is opened and the first message is not a ready message
  (unparseable, or an object with another \<open>type\<close>), \<open>connect\<close> returns \<open>False\<close>,
  \<open>connected\<close> is unchanged, and the opened connection stays assigned to \<open>websocket\<close>
  without having been closed by the client; a following \<open>disconnect\<close> closes it.
\<close>

theorem failed_connect_keeps_channel:
  assumes "incoming ws = Message m # rest"
    and "\<not> closed ws"
    and "m = Not_json t \<or> (\<exists>kv. m = Json_text (JObj kv) \<and> map_of kv ''type'' \<noteq> Some (JStr ''ready''))"
  shows "fst (connect (Inr ws) s) = False
       \<and> connected (snd (connect (Inr ws) s)) = connected s
       \<and> websocket (snd (connect (Inr ws) s)) = Some (ws\<lparr>incoming := rest\<rparr>)
       \<and> \<not> closed (ws\<lparr>incoming := rest\<rparr>)
       \<and> websocket (disconnect (snd (connect (Inr ws) s))) = Some (ws\<lparr>incoming := rest, closed := True\<rparr>)
       \<and> \<not> connected (disconnect (snd (connect (Inr ws) s)))"
proof -
  have no: "\<not> fst (connect (Inr ws) s)"
    using connect_first_message(1) [OF assms(1), of s] assms(3) by auto
  have conn: "connected (snd (connect (Inr ws) s)) = connected s"
    using connect_first_message(2) [OF assms(1), of s] no by simp
  have chan: "websocket (snd (connect (Inr ws) s)) = Some (ws\<lparr>incoming := rest\<rparr>)"
    by (rule connect_first_message(3) [OF assms(1)])
  have disc: "websocket (disconnect (snd (connect (Inr ws) s))) = Some (ws\<lparr>incoming := rest, closed := True\<rparr>)"
    by (simp add: disconnect_def chan ws_close_def Let_def)
  have off: "\<not> connected (disconnect (snd (connect (Inr ws) s)))"
    by (simp add: disconnect_def Let_def split: option.splits)
  show ?thesis using no conn chan disc off assms(2) by simp
qed

theorem failed_connect_keeps_channel_witness:
  "\<not> fst (connect (Inr \<lparr>incoming = [Message (Not_json ''hello'')],
                      send_faults = [], sent = [], closed = False\<rparr>)
          (VoiceAgentClient_init (Queue 50) (Queue 50)))
   \<and> websocket (snd (connect (Inr \<lparr>incoming = [Message (Not_json ''hello'')],
                      send_faults = [], sent = [], closed = False\<rparr>)
          (VoiceAgentClient_init (Queue 50) (Queue 50))))
       = Some \<lparr>incoming = [], send_faults = [], sent = [], closed = False\<rparr>
   \<and> websocket (disconnect (snd (connect (Inr \<lparr>incoming = [Message (Not_json ''hello'')],
                      send_faults = [], sent = [], closed = False\<rparr>)
          (VoiceAgentClient_init (Queue 50) (Queue 50)))))
       = Some \<lparr>incoming = [], send_faults = [], sent = [], closed = True\<rparr>"
  using failed_connect_keeps_channel [of "\<lparr>incoming = [Message (Not_json ''hello'')],
                      send_faults = [], sent = [], closed = False\<rparr>" "Not_json ''hello''" "[]" "''hello''"
          "VoiceAgentClient_init (Queue 50) (Queue 50)"]
  by simp

subsection \<open>Quantisation of the resampled frame\<close>

lemma sint_astype_int16:
  assumes "- 2147483648 \<le> trunc_zero v" and "trunc_zero v \<le> 2147483647"
  shows "sint (astype_int16 L v) = (trunc_zero v + 32768) mod 65536 - 32768"
  using assms
  by (simp add: astype_int16_def fits_int32_def sint_sbintrunc'
      signed_take_bit_eq_take_bit_shift take_bit_eq_mod)

text \<open>
  C8, as the code has it. Both resampling expressions store each value the resampler
  returns through \<open>astype(np.int16)\<close>, with no clipping step. A value whose integer part
  lies in the \<open>int16\<close> range is stored as that integer part. A value outside that range
  whose integer part still fits a signed 32-bit integer is stored wrapped modulo
  \<open>2^16\<close>, not saturated: one just above 32767 comes out negative, one just below
  -32768 comes out positive. Nothing is stated about values beyond 32 bits.
\<close>

theorem astype_int16_wraps:
  "(- 2147483648 \<le> trunc_zero v \<and> trunc_zero v \<le> 2147483647
      \<longrightarrow> sint (astype_int16 L v) = (trunc_zero v + 32768) mod 65536 - 32768)
   \<and> (- 32768 \<le> trunc_zero v \<and> trunc_zero v \<le> 32767
      \<longrightarrow> sint (astype_int16 L v) = trunc_zero v)
   \<and> (32767 < trunc_zero v \<and> trunc_zero v \<le> 98303
      \<longrightarrow> sint (astype_int16 L v) = trunc_zero v - 65536)
   \<and> (- 98304 \<le> trunc_zero v \<and> trunc_zero v < - 32768
      \<longrightarrow> sint (astype_int16 L v) = trunc_zero v + 65536)
   \<and> (resample L (map to_float32 a) (int_ratio (length a) VOICE_AGENT_INPUT_RATE SAMPLERATE) = Inr ys
        \<longrightarrow> resample_outbound L a = Inr (map (astype_int16 L) ys))
   \<and> (resample L (map to_float32 a) (int_ratio (length a) SAMPLERATE VOICE_AGENT_OUTPUT_RATE) = Inr ys'
        \<longrightarrow> resample_inbound L a = Inr (map (astype_int16 L) ys'))"
proof -
  let ?t = "trunc_zero v"
  have w: "- 2147483648 \<le> ?t \<and> ?t \<le> 2147483647
      \<longrightarrow> sint (astype_int16 L v) = (?t + 32768) mod 65536 - 32768"
    using sint_astype_int16 [of v L] by blast
  have a: "- 32768 \<le> ?t \<and> ?t \<le> 32767 \<longrightarrow> sint (astype_int16 L v) = ?t"
  proof
    assume h: "- 32768 \<le> ?t \<and> ?t \<le> 32767"
    then have "sint (astype_int16 L v) = (?t + 32768) mod 65536 - 32768"
      using w by linarith
    also have "(?t + 32768) mod 65536 = ?t + 32768"
      using h by (simp add: mod_pos_pos_trivial)
    finally show "sint (astype_int16 L v) = ?t" by simp
  qed
  have b: "32767 < ?t \<and> ?t \<le> 98303 \<longrightarrow> sint (astype_int16 L v) = ?t - 65536"
  proof
    assume h: "32767 < ?t \<and> ?t \<le> 98303"
    then have "sint (astype_int16 L v) = (?t + 32768) mod 65536 - 32768"
      using w by linarith
    also have "(?t + 32768) mod 65536 = (?t + 32768 - 65536) mod 65536"
      by (metis minus_mod_self2)
    also have "\<dots> = ?t + 32768 - 65536"
      using h by (simp add: mod_pos_pos_trivial)
    finally show "sint (astype_int16 L v) = ?t - 65536" by simp
  qed
  have c: "- 98304 \<le> ?t \<and> ?t < - 32768 \<longrightarrow> sint (astype_int16 L v) = ?t + 65536"
  proof
    assume h: "- 98304 \<le> ?t \<and> ?t < - 32768"
    then have "sint (astype_int16 L v) = (?t + 32768) mod 65536 - 32768"
      using w by linarith
    also have "(?t + 32768) mod 65536 = (?t + 32768 + 65536) mod 65536"
      by (metis mod_add_self2)
    also have "\<dots> = ?t + 32768 + 65536"
      using h by (simp add: mod_pos_pos_trivial)
    finally show "sint (astype_int16 L v) = ?t + 65536" by simp
  qed
  have d: "resample L (map to_float32 a) (int_ratio (length a) VOICE_AGENT_INPUT_RATE SAMPLERATE) = Inr ys
        \<longrightarrow> resample_outbound L a = Inr (map (astype_int16 L) ys)"
    by (simp add: resample_outbound_def)
  have e: "resample L (map to_float32 a) (int_ratio (length a) SAMPLERATE VOICE_AGENT_OUTPUT_RATE) = Inr ys'
        \<longrightarrow> resample_inbound L a = Inr (map (astype_int16 L) ys')"
    by (simp add: resample_inbound_def)
  from w a b c d e show ?thesis by blast
qed

theorem astype_int16_wraps_witness:
  "sint (astype_int16 zero_library 12345.75) = 12345
   \<and> sint (astype_int16 zero_library (- 12345.75)) = - 12345
   \<and> sint (astype_int16 zero_library 32768) = - 32768
   \<and> sint (astype_int16 zero_library (- 32769)) = 32767
   \<and> sint (astype_int16 zero_library 100000) = - 31072"
  using astype_int16_wraps [where v = "12345.75" and L = zero_library and a = "[]" and ys = "[]" and ys' = "[]"]
        astype_int16_wraps [where v = "- 12345.75" and L = zero_library and a = "[]" and ys = "[]" and ys' = "[]"]
        astype_int16_wraps [where v = "32768" and L = zero_library and a = "[]" and ys = "[]" and ys' = "[]"]
        astype_int16_wraps [where v = "- 32769" and L = zero_library and a = "[]" and ys = "[]" and ys' = "[]"]
        astype_int16_wraps [where v = "100000" and L = zero_library and a = "[]" and ys = "[]" and ys' = "[]"]
  by (simp add: trunc_zero_def)

text \<open>
  C8 as stated fails: the resampled value 40000 is stored as -25536, not as the bound
  32767, and -40000 as 25536, not as -32768.
\<close>

theorem astype_int16_no_clipping:
  "sint (astype_int16 zero_library 40000) = - 25536
   \<and> sint (astype_int16 zero_library (- 40000)) = 25536"
  by (simp add: astype_int16_def trunc_zero_def fits_int32_def)

subsection \<open>Length of the resampled frame\<close>

lemma int_ratio_outbound: "int_ratio n VOICE_AGENT_INPUT_RATE SAMPLERATE = n div 3"
proof -
  have "n * 16000 div 48000 = n * 16000 div (16000 * 3)" by simp
  also have "\<dots> = n div 3" by simp
  finally show ?thesis
    by (simp add: int_ratio_def VOICE_AGENT_INPUT_RATE_def SAMPLERATE_def)
qed

lemma int_ratio_inbound: "int_ratio n SAMPLERATE VOICE_AGENT_OUTPUT_RATE = 2 * n"
proof -
  have "n * 48000 = (2 * n) * 24000" by simp
  then have "n * 48000 div 24000 = 2 * n" by simp
  then show ?thesis
    by (simp add: int_ratio_def VOICE_AGENT_OUTPUT_RATE_def SAMPLERATE_def)
qed

lemma spec_length_inbound:
  "spec_resampled_length n VOICE_AGENT_OUTPUT_RATE SAMPLERATE = 2 * n"
proof -
  have "real n * 48000 / 24000 = real_of_int (int (2 * n))" by simp
  then have "round (real n * 48000 / 24000) = int (2 * n)"
    by (simp only: round_of_int)
  then show ?thesis
    by (simp add: spec_resampled_length_def VOICE_AGENT_OUTPUT_RATE_def SAMPLERATE_def)
qed

lemma spec_length_outbound:
  "spec_resampled_length n SAMPLERATE VOICE_AGENT_INPUT_RATE =
     (if n mod 3 = 2 then n div 3 + 1 else n div 3)"
proof -
  let ?q = "n div 3" and ?r = "n mod 3"
  have n: "real n = 3 * real ?q + real ?r"
    by (metis mult_div_mod_eq of_nat_add of_nat_mult of_nat_numeral)
  have x: "real n * 16000 / 48000 = real ?q + real ?r / 3"
    unfolding n by (simp add: field_simps)
  have r: "?r = 0 \<or> ?r = 1 \<or> ?r = 2" by linarith
  have "round (real ?q + real ?r / 3) = int (if ?r = 2 then ?q + 1 else ?q)"
  proof (rule round_unique)
    show "real ?q + real ?r / 3 - 1 / 2 < real_of_int (int (if ?r = 2 then ?q + 1 else ?q))"
      using r by auto
    show "real_of_int (int (if ?r = 2 then ?q + 1 else ?q)) \<le> real ?q + real ?r / 3 + 1 / 2"
      using r by auto
  qed
  then show ?thesis
    by (simp add: spec_resampled_length_def VOICE_AGENT_INPUT_RATE_def SAMPLERATE_def x)
qed

text \<open>
  C5, as the code has it. Given that \<open>scipy.signal.resample(x, num)\<close> returns \<open>num\<close>
  samples whenever it returns, a frame of \<open>N\<close> samples is resampled to
  \<open>int(N * r_out / r_in)\<close> samples, the quotient with its fraction discarded: \<open>N div 3\<close>
  samples on the way out (48000 to 16000) and \<open>2 * N\<close> on the way in (24000 to 48000).
  On the way in this is the specification's rounded length. On the way out it is the
  rounded length unless \<open>N mod 3 = 2\<close>, where the rounded length is one more.
\<close>

theorem resampled_length_truncates:
  assumes "\<forall>x n ys. resample L x n = Inr ys \<longrightarrow> length ys = n"
  shows "(resample_outbound L a = Inr out \<longrightarrow>
            length out = length a * 16000 div 48000 \<and> length out = length a div 3)
       \<and> (resample_inbound L a = Inr out' \<longrightarrow>
            length out' = length a * 48000 div 24000 \<and> length out' = 2 * length a
            \<and> length out' = spec_resampled_length (length a) VOICE_AGENT_OUTPUT_RATE SAMPLERATE)
       \<and> (length a mod 3 \<noteq> 2 \<longrightarrow>
            length a div 3 = spec_resampled_length (length a) SAMPLERATE VOICE_AGENT_INPUT_RATE)
       \<and> (length a mod 3 = 2 \<longrightarrow>
            length a div 3 + 1 = spec_resampled_length (length a) SAMPLERATE VOICE_AGENT_INPUT_RATE)"
proof -
  have o: "length out = length a div 3" if "resample_outbound L a = Inr out"
    using that assms [rule_format, of "map to_float32 a" "length a div 3"]
    by (auto simp add: resample_outbound_def int_ratio_outbound split: sum.splits)
  have i: "length out' = 2 * length a" if "resample_inbound L a = Inr out'"
    using that assms [rule_format, of "map to_float32 a" "2 * length a"]
    by (auto simp add: resample_inbound_def int_ratio_inbound split: sum.splits)
  have d3: "length a * 16000 div 48000 = length a div 3"
    using int_ratio_outbound [of "length a"]
    by (simp add: int_ratio_def VOICE_AGENT_INPUT_RATE_def SAMPLERATE_def)
  have d2: "length a * 48000 div 24000 = 2 * length a"
    using int_ratio_inbound [of "length a"]
    by (simp add: int_ratio_def VOICE_AGENT_OUTPUT_RATE_def SAMPLERATE_def)
  show ?thesis
    using o i d3 d2 by (simp add: spec_length_inbound spec_length_outbound)
qed

theorem resampled_length_truncates_witness:
  "resample_outbound zero_library [1, 2, 3, 4, 5, 6, 7] = Inr [0, 0]
   \<and> resample_inbound zero_library [1, 2] = Inr [0, 0, 0, 0]
   \<and> spec_resampled_length 7 SAMPLERATE VOICE_AGENT_INPUT_RATE = 2
   \<and> spec_resampled_length 2 VOICE_AGENT_OUTPUT_RATE SAMPLERATE = 4"
proof -
  have c: "\<forall>x n ys. resample zero_library x n = Inr ys \<longrightarrow> length ys = n"
    by (auto simp add: zero_library_def split: if_splits)
  have r2: "replicate 2 (0::real) = [0, 0]"
    by (simp add: numeral_2_eq_2)
  have r4: "replicate 4 (0::real) = [0, 0, 0, 0]"
    by (simp add: numeral_eq_Suc)
  have o: "resample_outbound zero_library [1, 2, 3, 4, 5, 6, 7] = Inr [0, 0]"
    by (simp add: resample_outbound_def zero_library_def int_ratio_outbound astype_int16_def
        fits_int32_def trunc_zero_def r2)
  have i: "resample_inbound zero_library [1, 2] = Inr [0, 0, 0, 0]"
    by (simp add: resample_inbound_def zero_library_def int_ratio_inbound astype_int16_def
        fits_int32_def trunc_zero_def r4)
  have l7: "length [1, 2, 3, 4, 5, 6, 7 :: sample] = 7" and l2: "length [1, 2 :: sample] = 2"
    by simp_all
  note t7 = resampled_length_truncates [where L = zero_library and a = "[1, 2, 3, 4, 5, 6, 7]"
      and out = "[0, 0]" and out' = "[]", OF c, unfolded l7]
  note t2 = resampled_length_truncates [where L = zero_library and a = "[1, 2]"
      and out = "[]" and out' = "[0, 0, 0, 0]", OF c, unfolded l2]
  have s7: "spec_resampled_length 7 SAMPLERATE VOICE_AGENT_INPUT_RATE = 2"
    using t7 by simp
  have s2: "spec_resampled_length 2 VOICE_AGENT_OUTPUT_RATE SAMPLERATE = 4"
    using t2 i by simp
  from o i s7 s2 show ?thesis by simp
qed

text \<open>
  C5 as stated fails: a frame of five samples is resampled for the voice agent to
  \<open>int(5 * 16000 / 48000) = 1\<close> sample, while \<open>round(5 * 16000 / 48000) = 2\<close>.
\<close>

theorem resampled_length_not_rounded:
  "resample_outbound zero_library [1, 2, 3, 4, 5] = Inr [0]
   \<and> int_ratio 5 VOICE_AGENT_INPUT_RATE SAMPLERATE = 1
   \<and> spec_resampled_length 5 SAMPLERATE VOICE_AGENT_INPUT_RATE = 2"
  by (simp add: resample_outbound_def zero_library_def int_ratio_outbound astype_int16_def
      fits_int32_def trunc_zero_def spec_length_outbound)

subsection \<open>send_audio: not ready, and failing sends\<close>

lemma log_logs: "log (logs lvl msg s) = (if lvl = DEBUG then log s else log s @ [(lvl, msg)])"
  by (simp add: logs_def)

lemma local_audio_queue_logs [simp]: "local_audio_queue (logs lvl msg s) = local_audio_queue s"
  by (simp add: logs_def)

lemma output_queue_logs [simp]: "output_queue (logs lvl msg s) = output_queue s"
  by (simp add: logs_def)

lemma stdout_logs [simp]: "stdout (logs lvl msg s) = stdout s"
  by (simp add: logs_def)

lemma send_audio_not_ready:
  "\<not> connected s \<or> websocket s = None \<Longrightarrow> send_audio L a s = s"
  by (auto simp add: send_audio_def)

lemma send_audio_resample_fails:
  assumes "connected s" and "websocket s = Some ws" and "resample_outbound L a = Inl e"
  shows "send_audio L a s = logs ERROR ''Error sending audio'' s"
  using assms by (simp add: send_audio_def)

lemma send_audio_send_fails:
  assumes "connected s" and "websocket s = Some ws" and "resample_outbound L a = Inr r"
    and "send_faults ws = Some e # rest"
  shows "send_audio L a s =
           logs ERROR ''Error sending audio'' (s\<lparr>websocket := Some (ws\<lparr>send_faults := rest\<rparr>)\<rparr>)"
  using assms by (simp add: send_audio_def ws_send_def Let_def)

lemma local_audio_queue_send_audio [simp]:
  "local_audio_queue (send_audio L a s) = local_audio_queue s"
  by (simp add: send_audio_def Let_def split: option.splits sum.splits prod.splits)

text \<open>
  C9. \<open>send_audio\<close> changes nothing when \<open>connected\<close> is \<open>False\<close> or no connection is
  assigned. When the client is ready and the attempt fails, in the resampling or in the
  send on the connection, the call still returns (the model's \<open>send_audio\<close> yields a
  state, the exception having been caught), exactly one error record is logged,
  \<open>connected\<close> stays \<open>True\<close>, the connection stays assigned and is not closed, nothing
  is added to the frames sent, and at most one send attempt has been made (no retry).
\<close>

theorem send_audio_swallows_failure:
  "((\<not> connected s \<or> websocket s = None) \<longrightarrow> send_audio L a s = s)
   \<and> (connected s \<and> websocket s = Some ws
        \<and> (resample_outbound L a = Inl e
            \<or> (resample_outbound L a = Inr r \<and> send_faults ws = Some e # rest))
       \<longrightarrow> connected (send_audio L a s)
         \<and> log (send_audio L a s) = log s @ [(ERROR, ''Error sending audio'')]
         \<and> (\<exists>ws'. websocket (send_audio L a s) = Some ws'
               \<and> closed ws' = closed ws \<and> sent ws' = sent ws \<and> incoming ws' = incoming ws
               \<and> send_faults ws' = (if resample_outbound L a = Inl e then send_faults ws else rest))
         \<and> output_queue (send_audio L a s) = output_queue s
         \<and> local_audio_queue (send_audio L a s) = local_audio_queue s
         \<and> stdout (send_audio L a s) = stdout s)"
proof (intro conjI impI)
  assume "\<not> connected s \<or> websocket s = None"
  then show "send_audio L a s = s" by (rule send_audio_not_ready)
next
  assume h: "connected s \<and> websocket s = Some ws
        \<and> (resample_outbound L a = Inl e
            \<or> (resample_outbound L a = Inr r \<and> send_faults ws = Some e # rest))"
  then have c: "connected s" and w: "websocket s = Some ws" by simp_all
  from h consider (rs) "resample_outbound L a = Inl e"
    | (sd) "resample_outbound L a = Inr r" "send_faults ws = Some e # rest" by blast
  then have eq: "send_audio L a s = logs ERROR ''Error sending audio''
      (s\<lparr>websocket := Some (ws\<lparr>send_faults :=
          (if resample_outbound L a = Inl e then send_faults ws else rest)\<rparr>)\<rparr>)"
  proof cases
    case rs
    have same: "s\<lparr>websocket := Some ws\<rparr> = s"
      unfolding w [symmetric] by simp
    show ?thesis using send_audio_resample_fails [OF c w rs] rs same by simp
  next
    case sd
    then show ?thesis using send_audio_send_fails [OF c w sd] by simp
  qed
  show "connected (send_audio L a s)" unfolding eq using c by simp
  show "log (send_audio L a s) = log s @ [(ERROR, ''Error sending audio'')]"
    unfolding eq by (simp add: log_logs)
  show "\<exists>ws'. websocket (send_audio L a s) = Some ws'
               \<and> closed ws' = closed ws \<and> sent ws' = sent ws \<and> incoming ws' = incoming ws
               \<and> send_faults ws' = (if resample_outbound L a = Inl e then send_faults ws else rest)"
    unfolding eq by simp
  show "output_queue (send_audio L a s) = output_queue s" unfolding eq by simp
  show "local_audio_queue (send_audio L a s) = local_audio_queue s" by simp
  show "stdout (send_audio L a s) = stdout s" unfolding eq by simp
qed

theorem send_audio_swallows_failure_witness:
  "send_audio zero_library [1, 2, 3] (VoiceAgentClient_init (Queue 50) (Queue 50))
     = VoiceAgentClient_init (Queue 50) (Queue 50)
   \<and> connected (send_audio zero_library [1, 2, 3]
        ((VoiceAgentClient_init (Queue 50) (Queue 50))
           \<lparr>websocket := Some \<lparr>incoming = [], send_faults = [Some ConnectionClosed], sent = [],
                                closed = False\<rparr>,
            connected := True\<rparr>))
   \<and> log (send_audio zero_library [1, 2, 3]
        ((VoiceAgentClient_init (Queue 50) (Queue 50))
           \<lparr>websocket := Some \<lparr>incoming = [], send_faults = [Some ConnectionClosed], sent = [],
                                closed = False\<rparr>,
            connected := True\<rparr>)) = [(ERROR, ''Error sending audio'')]"
proof -
  have r: "resample_outbound zero_library [1, 2, 3] = Inr [0]"
    by (simp add: resample_outbound_def zero_library_def int_ratio_outbound astype_int16_def
        fits_int32_def trunc_zero_def)
  from send_audio_swallows_failure [of "VoiceAgentClient_init (Queue 50) (Queue 50)"
         zero_library "[1, 2, 3]"]
       send_audio_swallows_failure [of "(VoiceAgentClient_init (Queue 50) (Queue 50))
           \<lparr>websocket := Some \<lparr>incoming = [], send_faults = [Some ConnectionClosed], sent = [],
                                closed = False\<rparr>,
            connected := True\<rparr>" zero_library "[1, 2, 3]"
           "\<lparr>incoming = [], send_faults = [Some ConnectionClosed], sent = [], closed = False\<rparr>"
           ConnectionClosed "[0]" "[]"]
  show ?thesis using r by (simp add: VoiceAgentClient_init_def)
qed

subsection \<open>listen_for_responses: what ends the receive loop\<close>

lemma on_message_unexpected:
  assumes "map_of kv ''type'' \<noteq> Some (JStr ''audio'')"
    and "map_of kv ''type'' \<noteq> Some (JStr ''text'')"
  shows "on_message L (Json_text (JObj kv)) s = Done s"
  using assms by (simp add: on_message_def json_loads_def dict_get_def)

lemma on_message_malformed:
  "on_message L (Not_json t) s = Raised JSONDecodeError s"
  by (simp add: on_message_def json_loads_def)

lemma put_response_connected:
  "put_response r s = Done s1 \<Longrightarrow> connected s1 = connected s"
  by (auto simp add: put_response_def queue_put_def split: if_splits)

lemma on_message_connected:
  "on_message L m s = Done s1 \<Longrightarrow> connected s1 = connected s"
  by (auto simp add: on_message_def split: sum.splits if_splits flow.splits
      dest: put_response_connected)

lemma connected_set_incoming [simp]: "connected (set_incoming rest s) = connected s"
  by (simp add: set_incoming_def)

lemma receive_loop_connected:
  "receive_loop L evs s = Done s1 \<Longrightarrow> connected s1 = connected s"
proof (induction L evs s rule: receive_loop.induct)
  case (1 L s)
  then show ?case by simp
next
  case (2 L e rest s)
  then show ?case by simp
next
  case (3 L m rest s)
  then show ?case
    by (auto split: flow.splits dest: on_message_connected)
qed

lemma set_incoming_websocket:
  "websocket s = Some ws \<Longrightarrow> websocket (set_incoming rest s) = Some (ws\<lparr>incoming := rest\<rparr>)"
  by (simp add: set_incoming_def)

text \<open>
  C3, as the code has it. The \<open>try\<close> encloses the whole loop. A message that is a JSON
  object with a \<open>type\<close> other than \<open>audio\<close> and \<open>text\<close> is dropped without a log record
  and the loop goes on with the messages after it. A message that is not parseable as
  JSON raises inside the loop: one error record is logged, \<open>connected\<close> becomes
  \<open>False\<close>, the coroutine returns and the messages after it are never taken off the
  connection. A receive that raises ends the loop in the same way (logged as a closed
  connection when the exception is \<open>ConnectionClosed\<close>). Whenever the coroutine returns
  having switched \<open>connected\<close> from \<open>True\<close> to \<open>False\<close>, something raised in the loop.
\<close>

theorem listen_raise_ends_loop:
  assumes "websocket s = Some ws"
  shows "(incoming ws = Message (Json_text (JObj kv)) # rest
          \<and> map_of kv ''type'' \<noteq> Some (JStr ''audio'')
          \<and> map_of kv ''type'' \<noteq> Some (JStr ''text'')
         \<longrightarrow> listen_for_responses L s = listen_for_responses L (set_incoming rest s))
       \<and> (incoming ws = Message (Not_json t) # rest
         \<longrightarrow> listen_for_responses L s =
               Done ((logs ERROR ''Error listening for responses'' (set_incoming rest s))
                       \<lparr>connected := False\<rparr>))
       \<and> (incoming ws = Failure e # rest
         \<longrightarrow> listen_for_responses L s =
               Done ((if e = ConnectionClosed
                      then logs INFO ''Voice agent connection closed'' (set_incoming rest s)
                      else logs ERROR ''Error listening for responses'' (set_incoming rest s))
                       \<lparr>connected := False\<rparr>))
       \<and> (listen_for_responses L s = Done s' \<and> connected s \<and> \<not> connected s'
         \<longrightarrow> (\<exists>x s1. receive_loop L (incoming ws) s = Raised x s1))"
proof (intro conjI impI)
  assume h: "incoming ws = Message (Json_text (JObj kv)) # rest
          \<and> map_of kv ''type'' \<noteq> Some (JStr ''audio'')
          \<and> map_of kv ''type'' \<noteq> Some (JStr ''text'')"
  then have step: "receive_loop L (incoming ws) s = receive_loop L rest (set_incoming rest s)"
    by (simp add: on_message_unexpected)
  show "listen_for_responses L s = listen_for_responses L (set_incoming rest s)"
    using assms step by (simp add: listen_for_responses_def set_incoming_websocket)
next
  assume "incoming ws = Message (Not_json t) # rest"
  then show "listen_for_responses L s =
               Done ((logs ERROR ''Error listening for responses'' (set_incoming rest s))
                       \<lparr>connected := False\<rparr>)"
    using assms by (simp add: listen_for_responses_def on_message_malformed)
next
  assume "incoming ws = Failure e # rest"
  then show "listen_for_responses L s =
               Done ((if e = ConnectionClosed
                      then logs INFO ''Voice agent connection closed'' (set_incoming rest s)
                      else logs ERROR ''Error listening for responses'' (set_incoming rest s))
                       \<lparr>connected := False\<rparr>)"
    using assms by (simp add: listen_for_responses_def)
next
  assume h: "listen_for_responses L s = Done s' \<and> connected s \<and> \<not> connected s'"
  show "\<exists>x s1. receive_loop L (incoming ws) s = Raised x s1"
  proof (cases "receive_loop L (incoming ws) s")
    case (Done s1)
    then have "s' = s1" using h assms by (simp add: listen_for_responses_def)
    with Done receive_loop_connected [of L "incoming ws" s s1] h show ?thesis by simp
  next
    case (Raised x s1)
    then show ?thesis by blast
  next
    case (Waiting s1)
    then show ?thesis using h assms by (simp add: listen_for_responses_def)
  qed
qed


theorem listen_raise_ends_loop_witness:
  "listen_for_responses zero_library
     ((VoiceAgentClient_init (Queue 50) (Queue 50))
        \<lparr>websocket := Some \<lparr>incoming = [Message (Json_text (JObj [(''type'', JStr ''ping'')])),
                                          Message (Not_json ''oops'')],
                             send_faults = [], sent = [], closed = False\<rparr>,
         connected := True\<rparr>)
   = Done \<lparr>websocket = Some \<lparr>incoming = [], send_faults = [], sent = [], closed = False\<rparr>,
           output_queue = Queue 50, connected = False, local_audio_queue = Queue 50,
           log = [(ERROR, ''Error listening for responses'')], stdout = []\<rparr>"
proof -
  let ?ws1 = "\<lparr>incoming = [Message (Json_text (JObj [(''type'', JStr ''ping'')])),
                            Message (Not_json ''oops'')],
                send_faults = [], sent = [], closed = False\<rparr>"
  let ?ws2 = "\<lparr>incoming = [Message (Not_json ''oops'')],
                send_faults = [], sent = [], closed = False\<rparr>"
  let ?s1 = "(VoiceAgentClient_init (Queue 50) (Queue 50))\<lparr>websocket := Some ?ws1, connected := True\<rparr>"
  let ?s2 = "(VoiceAgentClient_init (Queue 50) (Queue 50))\<lparr>websocket := Some ?ws2, connected := True\<rparr>"
  have w1: "websocket ?s1 = Some ?ws1" and w2: "websocket ?s2 = Some ?ws2" by simp_all
  have s12: "set_incoming [Message (Not_json ''oops'')] ?s1 = ?s2"
    by (simp add: set_incoming_def VoiceAgentClient_init_def)
  have a: "listen_for_responses zero_library ?s1 = listen_for_responses zero_library ?s2"
    using listen_raise_ends_loop [OF w1, of "[(''type'', JStr ''ping'')]" "[Message (Not_json ''oops'')]"
        zero_library] s12 by simp
  have b: "listen_for_responses zero_library ?s2 =
      Done ((logs ERROR ''Error listening for responses'' (set_incoming [] ?s2))\<lparr>connected := False\<rparr>)"
    using listen_raise_ends_loop [OF w2, of _ "[]" _ "''oops''"] by simp
  show ?thesis
    unfolding a b by (simp add: set_incoming_def VoiceAgentClient_init_def logs_def)
qed

text \<open>
  C3 as stated fails: after a malformed message the loop does not continue. The text
  message that follows it is left on the connection, nothing is printed, and the client
  is marked as not connected.
\<close>

theorem listen_stops_at_malformed:
  "listen_for_responses zero_library
     ((VoiceAgentClient_init (Queue 50) (Queue 50))
        \<lparr>websocket := Some \<lparr>incoming = [Message (Not_json ''oops''),
                                          Message (Json_text (JObj [(''type'', JStr ''text''),
                                                                    (''data'', JStr ''hi'')]))],
                             send_faults = [], sent = [], closed = False\<rparr>,
         connected := True\<rparr>)
   = Done \<lparr>websocket = Some \<lparr>incoming = [Message (Json_text (JObj [(''type'', JStr ''text''),
                                                                        (''data'', JStr ''hi'')]))],
                                send_faults = [], sent = [], closed = False\<rparr>,
           output_queue = Queue 50, connected = False, local_audio_queue = Queue 50,
           log = [(ERROR, ''Error listening for responses'')], stdout = []\<rparr>"
  by (simp add: listen_for_responses_def on_message_def json_loads_def set_incoming_def
      VoiceAgentClient_init_def logs_def)

subsection \<open>The bounded queues when full\<close>

lemma put_response_full: "full (output_queue s) \<Longrightarrow> put_response r s = Waiting s"
  by (simp add: put_response_def queue_put_def)

lemma put_response_log:
  "put_response r s = Done s1 \<or> put_response r s = Waiting s1 \<Longrightarrow> log s1 = log s"
  by (auto simp add: put_response_def queue_put_def logs_def split: if_splits)

text \<open>
  C1, what the code does. A queue of capacity 50 holding 50 frames is full. With the
  voice-agent queue full, the handling of a decodable audio message does not run to its
  end: the coroutine is suspended in \<open>put\<close>, the state is unchanged, so the frame is
  neither enqueued nor dropped and no warning is logged. The same holds for the frame
  loop of \<open>rtc_session\<close> with the local queue full, after its \<open>send_audio\<close>. The
  \<open>put\<close> block never adds a log record, whichever way it ends.
\<close>

theorem full_queue_put_suspends:
  "(maxsize q = 50 \<and> length (items q) = 50 \<longrightarrow> full q)
   \<and> (full (output_queue s) \<and> map_of kv ''type'' = Some (JStr ''audio'')
        \<and> decode_audio L (JObj kv) = Inr resampled
       \<longrightarrow> on_message L (Json_text (JObj kv)) s = Waiting s)
   \<and> (full (local_audio_queue s)
       \<longrightarrow> on_frame L a s = Waiting (send_audio L a s)
         \<and> local_audio_queue (send_audio L a s) = local_audio_queue s
         \<and> (\<not> connected s \<longrightarrow> on_frame L a s = Waiting s))
   \<and> (put_response r s = Done s1 \<or> put_response r s = Waiting s1 \<longrightarrow> log s1 = log s)"
proof (intro conjI impI)
  assume "maxsize q = 50 \<and> length (items q) = 50"
  then show "full q" by (simp add: full_def)
next
  assume "full (output_queue s) \<and> map_of kv ''type'' = Some (JStr ''audio'')
        \<and> decode_audio L (JObj kv) = Inr resampled"
  then show "on_message L (Json_text (JObj kv)) s = Waiting s"
    by (simp add: on_message_def json_loads_def dict_get_def put_response_full)
next
  assume f: "full (local_audio_queue s)"
  then show "on_frame L a s = Waiting (send_audio L a s)"
    by (simp add: on_frame_def queue_put_def Let_def)
  then show "\<not> connected s \<Longrightarrow> on_frame L a s = Waiting s"
    by (simp add: send_audio_not_ready)
  show "local_audio_queue (send_audio L a s) = local_audio_queue s" by simp
next
  assume "put_response r s = Done s1 \<or> put_response r s = Waiting s1"
  then show "log s1 = log s" by (rule put_response_log)
qed

theorem full_queue_put_suspends_witness:
  "listen_for_responses zero_library
     \<lparr>websocket = Some \<lparr>incoming = [Message (Json_text (JObj [(''type'', JStr ''audio''),
                                                               (''data'', JStr ''AQACAA=='')]))],
                         send_faults = [], sent = [], closed = False\<rparr>,
      output_queue = \<lparr>maxsize = 50, items = replicate 50 [0, 0, 0, 0]\<rparr>,
      connected = True, local_audio_queue = Queue 50, log = [], stdout = []\<rparr>
   = Waiting
     \<lparr>websocket = Some \<lparr>incoming = [], send_faults = [], sent = [], closed = False\<rparr>,
      output_queue = \<lparr>maxsize = 50, items = replicate 50 [0, 0, 0, 0]\<rparr>,
      connected = True, local_audio_queue = Queue 50, log = [], stdout = []\<rparr>
   \<and> on_frame zero_library [1, 2, 3]
       \<lparr>websocket = Some \<lparr>incoming = [], send_faults = [], sent = [], closed = False\<rparr>,
        output_queue = Queue 50, connected = True,
        local_audio_queue = \<lparr>maxsize = 50, items = replicate 50 [1, 2, 3]\<rparr>,
        log = [], stdout = []\<rparr>
     = Waiting
       \<lparr>websocket = Some \<lparr>incoming = [], send_faults = [],
                           sent = [Json_text (JObj [(''type'', JStr ''audio''),
                                                    (''data'', JStr ''AAA='')])],
                           closed = False\<rparr>,
        output_queue = Queue 50, connected = True,
        local_audio_queue = \<lparr>maxsize = 50, items = replicate 50 [1, 2, 3]\<rparr>,
        log = [], stdout = []\<rparr>"
proof -
  let ?kv = "[(''type'', JStr ''audio''), (''data'', JStr ''AQACAA=='')]"
  let ?qo = "\<lparr>maxsize = 50, items = replicate 50 [0, 0, 0, 0 :: sample]\<rparr>"
  let ?ql = "\<lparr>maxsize = 50, items = replicate 50 [1, 2, 3 :: sample]\<rparr>"
  let ?ws = "\<lparr>incoming = [], send_faults = [], sent = [], closed = False\<rparr>"
  let ?s1 = "\<lparr>websocket = Some ?ws, output_queue = ?qo, connected = True,
              local_audio_queue = Queue 50, log = [], stdout = []\<rparr>"
  let ?s2 = "\<lparr>websocket = Some ?ws, output_queue = Queue 50, connected = True,
              local_audio_queue = ?ql, log = [], stdout = []\<rparr>"
  have r4: "replicate 4 (0::real) = [0, 0, 0, 0]"
    by (simp add: numeral_eq_Suc)
  have d: "decode_audio zero_library (JObj ?kv) = Inr [0, 0, 0, 0]"
    by (simp add: decode_audio_def dict_get_default_def zero_library_def frombuffer_def
        resample_inbound_def int_ratio_inbound astype_int16_def fits_int32_def
        trunc_zero_def r4)
  have fo: "full ?qo"
    using full_queue_put_suspends [where q = ?qo and s = ?s1 and kv = ?kv and L = zero_library
        and resampled = "[]" and a = "[]" and r = "[]" and ?s1.0 = ?s1] by simp
  have fl: "full ?ql"
    using full_queue_put_suspends [where q = ?ql and s = ?s1 and kv = ?kv and L = zero_library
        and resampled = "[]" and a = "[]" and r = "[]" and ?s1.0 = ?s1] by simp
  have a: "on_message zero_library (Json_text (JObj ?kv)) ?s1 = Waiting ?s1"
    using full_queue_put_suspends [where q = ?qo and s = ?s1 and kv = ?kv and L = zero_library
        and resampled = "[0, 0, 0, 0]" and a = "[]" and r = "[]" and ?s1.0 = ?s1]
      d fo by simp
  have l: "listen_for_responses zero_library
             (?s1\<lparr>websocket := Some (?ws\<lparr>incoming := [Message (Json_text (JObj ?kv))]\<rparr>)\<rparr>)
           = Waiting ?s1"
    using a by (simp add: listen_for_responses_def set_incoming_def)
  have r: "resample_outbound zero_library [1, 2, 3] = Inr [0]"
    by (simp add: resample_outbound_def zero_library_def int_ratio_outbound astype_int16_def
        fits_int32_def trunc_zero_def)
  have e: "base64_encode (tobytes [0]) = ''AAA=''"
    by (simp add: base64_encode_def tobytes_def b64_char_def b64_alphabet_def)
  have sa: "send_audio zero_library [1, 2, 3] ?s2 =
      ?s2\<lparr>websocket := Some (?ws\<lparr>sent := [Json_text (JObj [(''type'', JStr ''audio''),
                                                             (''data'', JStr ''AAA='')])]\<rparr>)\<rparr>"
    using r e by (simp add: send_audio_def ws_send_def json_dumps_def logs_def zero_library_def Let_def)
  have b: "on_frame zero_library [1, 2, 3] ?s2 = Waiting (send_audio zero_library [1, 2, 3] ?s2)"
    using full_queue_put_suspends [where q = ?ql and s = ?s2 and kv = ?kv and L = zero_library
        and resampled = "[]" and a = "[1, 2, 3]" and r = "[]" and ?s1.0 = ?s2]
      fl by simp
  show ?thesis
    using l b sa by simp
qed

end
